theory Spec2Isabelle
  imports Complex_Main "HOL-Library.Sublist"
begin

section \<open>Python values\<close>

text \<open>
  The listing pipeline of \<^verbatim>\<open>central_processing.py\<close> works on dictionaries from field
  names to untyped values (\<^verbatim>\<open>Dict[str, Any]\<close>). A value is \<^verbatim>\<open>None\<close>, a bool, an
  unbounded integer, a float, a string or a list. Floats are modelled by exact rationals:
  rounding, overflow, infinities and NaN are outside the model. Strings are lists of
  8-bit characters and stand for ASCII text: case mapping and the regular-expression
  classes \<^verbatim>\<open>\w\<close>, \<^verbatim>\<open>\d\<close>, \<^verbatim>\<open>\s\<close> are modelled on ASCII only. Dictionaries as field
  values behave like lists in every operation used here and are not modelled separately.
\<close>

datatype pyval = PNone | PBool bool | PInt int | PFloat rat | PStr string | PList "pyval list"

text \<open>The exceptions that the modelled code can meet.\<close>

datatype pyerr = ValueError | TypeError | AttributeError

type_synonym pydict = "string \<rightharpoonup> pyval"

text \<open>Truth value testing (\<^verbatim>\<open>if x\<close>, \<^verbatim>\<open>not x\<close>, \<^verbatim>\<open>x or y\<close>).\<close>

fun truthy :: "pyval \<Rightarrow> bool" where
  "truthy PNone = False"
| "truthy (PBool b) = b"
| "truthy (PInt n) = (n \<noteq> 0)"
| "truthy (PFloat r) = (r \<noteq> 0)"
| "truthy (PStr s) = (s \<noteq> [])"
| "truthy (PList xs) = (xs \<noteq> [])"

definition py_or :: "pyval \<Rightarrow> pyval \<Rightarrow> pyval" where
  "py_or a b = (if truthy a then a else b)"

text \<open>\<^verbatim>\<open>d.get(k)\<close> and \<^verbatim>\<open>d.get(k, default)\<close>.\<close>

definition dict_get :: "pydict \<Rightarrow> string \<Rightarrow> pyval" where
  "dict_get d k = (case d k of None \<Rightarrow> PNone | Some v \<Rightarrow> v)"

definition dict_get_or :: "pydict \<Rightarrow> string \<Rightarrow> pyval \<Rightarrow> pyval" where
  "dict_get_or d k dflt = (case d k of None \<Rightarrow> dflt | Some v \<Rightarrow> v)"

subsection \<open>Characters and strings\<close>

definition is_digit :: "char \<Rightarrow> bool" where
  "is_digit c = (48 \<le> (of_char c :: nat) \<and> (of_char c :: nat) \<le> 57)"

definition is_upper :: "char \<Rightarrow> bool" where
  "is_upper c = (65 \<le> (of_char c :: nat) \<and> (of_char c :: nat) \<le> 90)"

definition is_lower :: "char \<Rightarrow> bool" where
  "is_lower c = (97 \<le> (of_char c :: nat) \<and> (of_char c :: nat) \<le> 122)"

text \<open>The class \<^verbatim>\<open>\w\<close>: letters, digits and the underscore.\<close>

definition is_word :: "char \<Rightarrow> bool" where
  "is_word c = (is_digit c \<or> is_upper c \<or> is_lower c \<or> c = CHR ''_'')"

text \<open>
  The class \<^verbatim>\<open>\s\<close> and the characters removed by \<^verbatim>\<open>str.strip()\<close>: tab, line feed,
  vertical tab, form feed, carriage return, the four separators 28 to 31, and the space.
\<close>

definition is_space :: "char \<Rightarrow> bool" where
  "is_space c = ((9 \<le> (of_char c :: nat) \<and> (of_char c :: nat) \<le> 13)
     \<or> (28 \<le> (of_char c :: nat) \<and> (of_char c :: nat) \<le> 32))"

definition upper_char :: "char \<Rightarrow> char" where
  "upper_char c =
     (if is_lower c then ''ABCDEFGHIJKLMNOPQRSTUVWXYZ'' ! ((of_char c :: nat) - 97) else c)"

definition upper :: "string \<Rightarrow> string" where
  "upper s = map upper_char s"

definition strip :: "string \<Rightarrow> string" where
  "strip s = rev (dropWhile is_space (rev (dropWhile is_space s)))"

text \<open>\<^verbatim>\<open>sep.join(xs)\<close>.\<close>

fun join :: "string \<Rightarrow> string list \<Rightarrow> string" where
  "join sep [] = []"
| "join sep [x] = x"
| "join sep (x # y # ys) = x @ sep @ join sep (y # ys)"

subsection \<open>Numbers from text\<close>

definition digit_val :: "char \<Rightarrow> nat" where
  "digit_val c = (of_char c :: nat) - 48"

definition nat_of_digits :: "string \<Rightarrow> nat" where
  "nat_of_digits ds = foldl (\<lambda>a c. 10 * a + digit_val c) 0 ds"

text \<open>
  A digit part of a Python numeric literal: digits, with single underscores allowed
  between two digits. The result is the digits without the underscores.
\<close>

fun digitpart :: "string \<Rightarrow> string option" where
  "digitpart [] = None"
| "digitpart [c] = (if is_digit c then Some [c] else None)"
| "digitpart (c # d # cs) =
     (if \<not> is_digit c then None
      else if d = CHR ''_'' then map_option (Cons c) (digitpart cs)
      else map_option (Cons c) (digitpart (d # cs)))"

text \<open>An optional sign in front of a number: the flag says whether it is a minus.\<close>

fun split_sign :: "string \<Rightarrow> bool \<times> string" where
  "split_sign [] = (False, [])"
| "split_sign (c # cs) =
     (if c = CHR ''-'' then (True, cs)
      else if c = CHR ''+'' then (False, cs)
      else (False, c # cs))"

text \<open>\<^verbatim>\<open>int(s)\<close> for a string, base ten.\<close>

definition int_of_str :: "string \<Rightarrow> pyerr + int" where
  "int_of_str s =
     (case split_sign (strip s) of (neg, u) \<Rightarrow>
        (case digitpart u of
           None \<Rightarrow> Inl ValueError
         | Some ds \<Rightarrow> Inr (if neg then - int (nat_of_digits ds) else int (nat_of_digits ds))))"

text \<open>\<^verbatim>\<open>int(x)\<close>: a float is truncated towards zero.\<close>

fun py_int :: "pyval \<Rightarrow> pyerr + int" where
  "py_int PNone = Inl TypeError"
| "py_int (PBool b) = Inr (if b then 1 else 0)"
| "py_int (PInt n) = Inr n"
| "py_int (PFloat r) = Inr (if 0 \<le> r then \<lfloor>r\<rfloor> else \<lceil>r\<rceil>)"
| "py_int (PStr s) = int_of_str s"
| "py_int (PList xs) = Inl TypeError"

text \<open>
  \<^verbatim>\<open>float(s)\<close> for a string: surrounding whitespace, an optional sign, an integer part
  and an optional fraction (one of the two may be empty), and an optional exponent. The
  spellings of infinity and NaN give \<^verbatim>\<open>ValueError\<close> here; in the one place where the
  code can meet them (the size and price signals of the match score) a non-finite
  operand and a \<^verbatim>\<open>ValueError\<close> both leave the score unchanged.
\<close>

definition is_exp_mark :: "char \<Rightarrow> bool" where
  "is_exp_mark c = (c = CHR ''e'' \<or> c = CHR ''E'')"

definition mantissa_of_str :: "string \<Rightarrow> rat option" where
  "mantissa_of_str m =
     (let ip = takeWhile (\<lambda>c. c \<noteq> CHR ''.'') m;
          fp = dropWhile (\<lambda>c. c \<noteq> CHR ''.'') m
      in if fp = [] then map_option (\<lambda>ds. of_nat (nat_of_digits ds)) (digitpart ip)
         else let fd = tl fp in
           if ip = [] \<and> fd = [] then None
           else (case (if ip = [] then Some [] else digitpart ip,
                       if fd = [] then Some [] else digitpart fd) of
                   (Some i, Some f) \<Rightarrow>
                     Some (of_nat (nat_of_digits i) + of_nat (nat_of_digits f) / 10 ^ length f)
                 | _ \<Rightarrow> None))"

definition exponent_of_str :: "string \<Rightarrow> int option" where
  "exponent_of_str e =
     (if e = [] then Some 0
      else (case split_sign (tl e) of (neg, u) \<Rightarrow>
              map_option (\<lambda>ds. if neg then - int (nat_of_digits ds) else int (nat_of_digits ds))
                (digitpart u)))"

definition float_of_str :: "string \<Rightarrow> pyerr + rat" where
  "float_of_str s =
     (case split_sign (strip s) of (neg, u) \<Rightarrow>
        (case (mantissa_of_str (takeWhile (\<lambda>c. \<not> is_exp_mark c) u),
               exponent_of_str (dropWhile (\<lambda>c. \<not> is_exp_mark c) u)) of
           (Some m, Some e) \<Rightarrow>
             Inr ((if neg then - m else m) *
                  (if 0 \<le> e then 10 ^ nat e else 1 / 10 ^ nat (- e)))
         | _ \<Rightarrow> Inl ValueError))"

text \<open>\<^verbatim>\<open>float(x)\<close>.\<close>

fun py_float :: "pyval \<Rightarrow> pyerr + rat" where
  "py_float PNone = Inl TypeError"
| "py_float (PBool b) = Inr (if b then 1 else 0)"
| "py_float (PInt n) = Inr (of_int n)"
| "py_float (PFloat r) = Inr r"
| "py_float (PStr s) = float_of_str s"
| "py_float (PList xs) = Inl TypeError"

subsection \<open>Formatting numbers\<close>

definition digit_char :: "nat \<Rightarrow> char" where
  "digit_char n = ''0123456789'' ! n"

function nat_digits :: "nat \<Rightarrow> string" where
  "nat_digits n = (if n < 10 then [digit_char n] else nat_digits (n div 10) @ [digit_char (n mod 10)])"
  by pat_completeness auto
termination
  by (relation "measure id") auto

declare nat_digits.simps [simp del]

fun group3 :: "string \<Rightarrow> string" where
  "group3 (a # b # c # d # ds) = a # b # c # CHR '','' # group3 (d # ds)"
| "group3 ds = ds"

text \<open>Rounding to the nearest integer, ties to the even one.\<close>

definition round_half_even :: "rat \<Rightarrow> int" where
  "round_half_even r =
     (let f = \<lfloor>r\<rfloor>; d = r - of_int f
      in if d < 1 / 2 then f
         else if 1 / 2 < d then f + 1
         else if even f then f else f + 1)"

text \<open>The format \<^verbatim>\<open>{x:,.0f}\<close>: no decimals, thousands separated by commas.\<close>

definition format_commas :: "rat \<Rightarrow> string" where
  "format_commas r =
     (if r < 0 then ''-'' else '''') @ rev (group3 (rev (nat_digits (nat \<bar>round_half_even r\<bar>))))"

section \<open>PropertyClassifier\<close>

definition MIN_PRICE :: int where "MIN_PRICE = 100000"
definition MAX_PRICE :: int where "MAX_PRICE = 50000000"
definition MAX_DAYS_ON_MARKET :: int where "MAX_DAYS_ON_MARKET = 365"

record discard_details =
  reason_category :: string
  explanation :: string
  discarded_date :: string

type_synonym classify_result = "string \<times> string option \<times> discard_details option"

definition zillow_type_mapping :: "(string \<times> string) list" where
  "zillow_type_mapping =
     [(''SINGLE_FAMILY'', ''SINGLE_FAMILY''),
      (''MULTI_FAMILY'', ''MULTIFAMILY''),
      (''APARTMENT'', ''MULTIFAMILY''),
      (''CONDO'', ''CONDO''),
      (''TOWNHOUSE'', ''TOWNHOUSE''),
      (''LOT'', ''LAND''),
      (''FARM'', ''LAND'')]"

text \<open>
  The property type of the record, upper-cased and mapped to the standard vocabulary.
  \<^verbatim>\<open>prop_type.upper()\<close> raises \<^verbatim>\<open>AttributeError\<close> on a truthy value that is not a
  string. The type filter that would use the result is commented out in the source.
\<close>

definition mapped_property_type :: "pydict \<Rightarrow> pyerr + string" where
  "mapped_property_type d =
     (let prop_type = py_or (dict_get d ''homeType'') (dict_get_or d ''property_type'' (PStr ''''))
      in if truthy prop_type then
           (case prop_type of
              PStr s \<Rightarrow> Inr (case map_of zillow_type_mapping (upper s) of
                               Some t \<Rightarrow> t | None \<Rightarrow> upper s)
            | _ \<Rightarrow> Inl AttributeError)
         else Inr '''')"

text \<open>\<^verbatim>\<open>re.sub(r'[^\d.]', '', price)\<close>.\<close>

definition strip_non_numeric :: "string \<Rightarrow> string" where
  "strip_non_numeric s = filter (\<lambda>c. is_digit c \<or> c = CHR ''.'') s"

text \<open>The number that the price rule compares: a string is stripped before \<^verbatim>\<open>float\<close>.\<close>

definition price_number :: "pyval \<Rightarrow> pyerr + rat" where
  "price_number price =
     py_float (case price of PStr s \<Rightarrow> PStr (strip_non_numeric s) | _ \<Rightarrow> price)"

definition effective_price :: "pydict \<Rightarrow> pyval" where
  "effective_price d = py_or (dict_get d ''unformattedPrice'') (dict_get d ''price'')"

definition effective_days :: "pydict \<Rightarrow> pyval" where
  "effective_days d = py_or (dict_get d ''daysOnZillow'') (dict_get d ''days_on_market'')"

definition missing_fields :: "pydict \<Rightarrow> string list" where
  "missing_fields d = filter (\<lambda>f. \<not> truthy (dict_get d f)) [''address'']"

text \<open>The last rule: days on market. Both caught exceptions skip the rule.\<close>

definition days_rule :: "pydict \<Rightarrow> classify_result" where
  "days_rule d =
     (let days_on_market = effective_days d
      in if truthy days_on_market then
           (case py_int days_on_market of
              Inr n \<Rightarrow> if n > MAX_DAYS_ON_MARKET then (''flagged'', None, None)
                       else (''usable'', None, None)
            | Inl e \<Rightarrow> (''usable'', None, None))
         else (''usable'', None, None))"

text \<open>The price rule, followed by the days rule when it does not discard.\<close>

definition price_rule :: "string \<Rightarrow> pydict \<Rightarrow> classify_result" where
  "price_rule now d =
     (let price = effective_price d
      in if truthy price then
           (case price_number price of
              Inr p \<Rightarrow>
                if p < of_int MIN_PRICE \<or> p > of_int MAX_PRICE then
                  (''discarded'', Some ''outside_investment_mandate'',
                   Some \<lparr>reason_category = ''price_out_of_range'',
                         explanation = ''Price $'' @ format_commas p @ '' outside range ($''
                           @ format_commas (of_int MIN_PRICE) @ '' - $''
                           @ format_commas (of_int MAX_PRICE) @ '')'',
                         discarded_date = now\<rparr>)
                else days_rule d
            | Inl e \<Rightarrow> days_rule d)
         else days_rule d)"

text \<open>
  \<^verbatim>\<open>PropertyClassifier.classify_property\<close>. The argument \<open>now\<close> is the text of
  \<^verbatim>\<open>datetime.utcnow().isoformat()\<close> at the call.
\<close>

definition classify_property :: "string \<Rightarrow> pydict \<Rightarrow> pyerr + classify_result" where
  "classify_property now d =
     (if missing_fields d \<noteq> [] then
        Inr (''discarded'', Some ''missing_critical_fields'',
             Some \<lparr>reason_category = ''incomplete_data'',
                   explanation = ''Missing required fields: '' @ join '', '' (missing_fields d),
                   discarded_date = now\<rparr>)
      else (case mapped_property_type d of
              Inl e \<Rightarrow> Inl e
            | Inr prop_type \<Rightarrow> Inr (price_rule now d)))"

section \<open>AddressNormalizer\<close>

definition STREET_SUFFIXES :: "(string \<times> string) list" where
  "STREET_SUFFIXES =
     [(''ST'', ''STREET''), (''AVE'', ''AVENUE''), (''BLVD'', ''BOULEVARD''),
      (''DR'', ''DRIVE''), (''RD'', ''ROAD''), (''LN'', ''LANE''), (''CT'', ''COURT''),
      (''PL'', ''PLACE''), (''TER'', ''TERRACE''), (''WAY'', ''WAY''),
      (''CIR'', ''CIRCLE''), (''PKWY'', ''PARKWAY'')]"

definition DIRECTIONALS :: "(string \<times> string) list" where
  "DIRECTIONALS =
     [(''N'', ''NORTH''), (''S'', ''SOUTH''), (''E'', ''EAST''), (''W'', ''WEST''),
      (''NE'', ''NORTHEAST''), (''NW'', ''NORTHWEST''), (''SE'', ''SOUTHEAST''),
      (''SW'', ''SOUTHWEST'')]"

text \<open>
  The substitutions of \<^verbatim>\<open>normalize_address\<close> scan the text from left to right, as
  \<^verbatim>\<open>re.sub\<close> does. Each scanner carries two pieces of state: whether the character
  before the current position is a word character (for \<^verbatim>\<open>\b\<close>), and how many
  characters of a match just replaced are still to be skipped.
\<close>

text \<open>\<^verbatim>\<open>re.sub(r'\s+', ' ', s)\<close>: the flag says that a run of whitespace is being skipped.\<close>

fun collapse_whitespace :: "bool \<Rightarrow> string \<Rightarrow> string" where
  "collapse_whitespace in_run [] = []"
| "collapse_whitespace in_run (c # cs) =
     (if is_space c then
        (if in_run then collapse_whitespace True cs
         else CHR '' '' # collapse_whitespace True cs)
      else c # collapse_whitespace False cs)"

text \<open>\<^verbatim>\<open>re.sub(r'[^\w\s\-]', '', s)\<close>.\<close>

definition remove_punctuation :: "string \<Rightarrow> string" where
  "remove_punctuation s = filter (\<lambda>c. is_word c \<or> is_space c \<or> c = CHR ''-'') s"

text \<open>
  The text starts with the word \<open>w\<close>, and the word ends there (the second \<^verbatim>\<open>\b\<close> of
  \<^verbatim>\<open>\bw\b\<close>, for a \<open>w\<close> made of word characters).
\<close>

definition word_here :: "string \<Rightarrow> string \<Rightarrow> bool" where
  "word_here w s =
     (prefix w s \<and> (case drop (length w) s of [] \<Rightarrow> True | d # ds \<Rightarrow> \<not> is_word d))"

text \<open>\<^verbatim>\<open>re.sub(rf'\b{abbr}\b', full, s)\<close> for an abbreviation made of word characters.\<close>

fun expand_word :: "string \<Rightarrow> string \<Rightarrow> bool \<Rightarrow> nat \<Rightarrow> string \<Rightarrow> string" where
  "expand_word abbr full prev_word skip [] = []"
| "expand_word abbr full prev_word skip (c # cs) =
     (if 0 < skip then expand_word abbr full (is_word c) (skip - 1) cs
      else if \<not> prev_word \<and> word_here abbr (c # cs) then
        full @ expand_word abbr full (is_word c) (length abbr - 1) cs
      else c # expand_word abbr full (is_word c) 0 cs)"

definition expand_all :: "(string \<times> string) list \<Rightarrow> string \<Rightarrow> string" where
  "expand_all table s = foldl (\<lambda>addr (abbr, full). expand_word abbr full False 0 addr) s table"

text \<open>
  \<^verbatim>\<open>re.sub(r'\b0+(\d+)\b', r'\1', s)\<close>. A match starts at the start of a word and ends
  at a word boundary after digits only, so it is a whole word of at least two digits that
  starts with a zero. The greedy \<^verbatim>\<open>0+\<close> takes every leading zero but leaves one digit
  for the group.
\<close>

definition zero_led_number :: "string \<Rightarrow> bool" where
  "zero_led_number w = (2 \<le> length w \<and> hd w = CHR ''0'' \<and> list_all is_digit w)"

definition without_leading_zeros :: "string \<Rightarrow> string" where
  "without_leading_zeros w =
     (let r = dropWhile (\<lambda>c. c = CHR ''0'') w in if r = [] then ''0'' else r)"

fun strip_leading_zeros :: "bool \<Rightarrow> nat \<Rightarrow> string \<Rightarrow> string" where
  "strip_leading_zeros prev_word skip [] = []"
| "strip_leading_zeros prev_word skip (c # cs) =
     (if 0 < skip then strip_leading_zeros (is_word c) (skip - 1) cs
      else if \<not> prev_word \<and> zero_led_number (takeWhile is_word (c # cs)) then
        without_leading_zeros (takeWhile is_word (c # cs))
          @ strip_leading_zeros (is_word c) (length (takeWhile is_word (c # cs)) - 1) cs
      else c # strip_leading_zeros (is_word c) 0 cs)"

text \<open>
  \<^verbatim>\<open>re.sub(r'\b(UNIT|APT|SUITE|STE|#)\s*', 'UNIT ', s)\<close>. The alternatives are tried in
  order. \<^verbatim>\<open>\b\<close> holds in front of a marker when the character before and the first
  character of the marker differ in being word characters. Nothing is required after the
  marker: there is no second \<^verbatim>\<open>\b\<close>.
\<close>

definition UNIT_MARKERS :: "string list" where
  "UNIT_MARKERS = [''UNIT'', ''APT'', ''SUITE'', ''STE'', ''#'']"

definition marker_here :: "bool \<Rightarrow> string \<Rightarrow> string option" where
  "marker_here prev_word s =
     find (\<lambda>m. prefix m s \<and> prev_word \<noteq> is_word (hd m)) UNIT_MARKERS"

fun normalize_units :: "bool \<Rightarrow> nat \<Rightarrow> string \<Rightarrow> string" where
  "normalize_units prev_word skip [] = []"
| "normalize_units prev_word skip (c # cs) =
     (if 0 < skip then normalize_units (is_word c) (skip - 1) cs
      else (case marker_here prev_word (c # cs) of
              Some m \<Rightarrow>
                ''UNIT '' @ normalize_units (is_word c)
                  (length m + length (takeWhile is_space (drop (length m) (c # cs))) - 1) cs
            | None \<Rightarrow> c # normalize_units (is_word c) 0 cs))"

text \<open>\<^verbatim>\<open>AddressNormalizer.normalize_address\<close> on a string.\<close>

definition normalize_address :: "string \<Rightarrow> string" where
  "normalize_address address =
     (if address = [] then []
      else strip (normalize_units False 0 (strip_leading_zeros False 0
             (expand_all DIRECTIONALS (expand_all STREET_SUFFIXES
               (remove_punctuation (collapse_whitespace False (strip (upper address)))))))))"

text \<open>\<^verbatim>\<open>s.split(sep)\<close> for a one-character separator: the parts, at least one.\<close>

fun split_on :: "char \<Rightarrow> string \<Rightarrow> string \<Rightarrow> string list" where
  "split_on sep cur [] = [rev cur]"
| "split_on sep cur (c # cs) =
     (if c = sep then rev cur # split_on sep [] cs else split_on sep (c # cur) cs)"

record address_components =
  full_address :: string
  street :: string
  city :: string
  state :: string
  zip_code :: string

text \<open>
  The optional group \<^verbatim>\<open>(\d{5}(?:-\d{4})?)?\<close> at the start of a text: five digits, then
  a hyphen and four digits when they follow.
\<close>

definition zip_group :: "string \<Rightarrow> string option" where
  "zip_group r =
     (if 5 \<le> length r \<and> list_all is_digit (take 5 r) then
        Some (take 5 r @
          (case drop 5 r of
             [] \<Rightarrow> []
           | d # ds \<Rightarrow>
               if d = CHR ''-'' \<and> 4 \<le> length ds \<and> list_all is_digit (take 4 ds)
               then d # take 4 ds else []))
      else None)"

text \<open>
  \<^verbatim>\<open>re.match(r'([A-Z]{2})\s*(\d{5}(?:-\d{4})?)?', s)\<close>: the two groups of the match, or
  \<open>None\<close> when the text does not start with two capital letters.
\<close>

definition match_state_zip :: "string \<Rightarrow> (string \<times> string option) option" where
  "match_state_zip s =
     (case s of
        a # b # rest \<Rightarrow>
          if is_upper a \<and> is_upper b then Some ([a, b], zip_group (dropWhile is_space rest))
          else None
      | _ \<Rightarrow> None)"

text \<open>\<^verbatim>\<open>AddressNormalizer.extract_address_components\<close> on a string.\<close>

definition extract_address_components :: "string \<Rightarrow> address_components" where
  "extract_address_components address =
     (let parts = map strip (split_on CHR '','' [] address);
          components = \<lparr>full_address = address, street = '''', city = '''', state = '''',
                         zip_code = ''''\<rparr>;
          components = (if 1 \<le> length parts then components\<lparr>street := parts ! 0\<rparr>
                        else components);
          components = (if 2 \<le> length parts then components\<lparr>city := parts ! 1\<rparr>
                        else components)
      in if 3 \<le> length parts then
           (case match_state_zip (strip (parts ! 2)) of
              None \<Rightarrow> components
            | Some (st, z) \<Rightarrow>
                (case z of
                   None \<Rightarrow> components\<lparr>state := st\<rparr>
                 | Some zp \<Rightarrow> components\<lparr>state := st, zip_code := zp\<rparr>))
         else components)"

section \<open>PropertyMatcher\<close>

text \<open>
  The two address functions applied to an untyped field value: \<^verbatim>\<open>normalize_address\<close>
  returns the empty text for a falsy value and calls \<^verbatim>\<open>.upper()\<close> on any other;
  \<^verbatim>\<open>extract_address_components\<close> calls \<^verbatim>\<open>.split\<close> at once.
\<close>

definition normalize_value :: "pyval \<Rightarrow> pyerr + string" where
  "normalize_value v =
     (if \<not> truthy v then Inr []
      else (case v of PStr s \<Rightarrow> Inr (normalize_address s) | _ \<Rightarrow> Inl AttributeError))"

definition extract_value :: "pyval \<Rightarrow> pyerr + address_components" where
  "extract_value v =
     (case v of PStr s \<Rightarrow> Inr (extract_address_components s) | _ \<Rightarrow> Inl AttributeError)"

text \<open>\<^verbatim>\<open>x.upper() if x else ''\<close>.\<close>

definition upper_or_empty :: "pyval \<Rightarrow> pyerr + string" where
  "upper_or_empty v =
     (if truthy v then (case v of PStr s \<Rightarrow> Inr (upper s) | _ \<Rightarrow> Inl AttributeError)
      else Inr [])"

text \<open>The numeric value of a bool, an integer or a float.\<close>

fun num_value :: "pyval \<Rightarrow> rat option" where
  "num_value (PBool b) = Some (if b then 1 else 0)"
| "num_value (PInt n) = Some (of_int n)"
| "num_value (PFloat r) = Some r"
| "num_value v = None"

text \<open>The comparison \<^verbatim>\<open>==\<close>: numbers by value, across the three numeric types.\<close>

fun py_eq :: "pyval \<Rightarrow> pyval \<Rightarrow> bool" and py_eq_list :: "pyval list \<Rightarrow> pyval list \<Rightarrow> bool" where
  "py_eq PNone b = (b = PNone)"
| "py_eq (PStr s) b = (b = PStr s)"
| "py_eq (PList xs) b = (case b of PList ys \<Rightarrow> py_eq_list xs ys | _ \<Rightarrow> False)"
| "py_eq (PBool x) b = (num_value b = Some (if x then 1 else 0))"
| "py_eq (PInt n) b = (num_value b = Some (of_int n))"
| "py_eq (PFloat r) b = (num_value b = Some r)"
| "py_eq_list [] ys = (ys = [])"
| "py_eq_list (x # xs) ys = (case ys of [] \<Rightarrow> False | y # ys' \<Rightarrow> py_eq x y \<and> py_eq_list xs ys')"

definition address_of :: "pydict \<Rightarrow> pyval" where
  "address_of l = py_or (dict_get l ''address_full'') (dict_get_or l ''address'' (PStr ''''))"

text \<open>Address match (40%).\<close>

definition address_signal :: "pydict \<Rightarrow> pydict \<Rightarrow> pyerr + rat" where
  "address_signal listing1 listing2 =
     (case normalize_value (address_of listing1) of
        Inl e \<Rightarrow> Inl e
      | Inr addr1 \<Rightarrow>
          (case normalize_value (address_of listing2) of
             Inl e \<Rightarrow> Inl e
           | Inr addr2 \<Rightarrow>
               Inr (if addr1 \<noteq> [] \<and> addr2 \<noteq> [] then
                      (if addr1 = addr2 then 40 / 100
                       else if sublist addr1 addr2 \<or> sublist addr2 addr1 then 30 / 100
                       else 0)
                    else 0)))"

text \<open>
  City, state and ZIP of a listing: the structured fields, completed from the full address
  when the city or the state is missing.
\<close>

definition location_of :: "pydict \<Rightarrow> pyerr + (pyval \<times> pyval \<times> pyval)" where
  "location_of l =
     (let city = py_or (dict_get l ''address_city'') (PStr '''');
          state = py_or (dict_get l ''address_state'') (PStr '''');
          zip = py_or (dict_get l ''address_zip'') (PStr '''')
      in if \<not> truthy city \<or> \<not> truthy state then
           (case extract_value (address_of l) of
              Inl e \<Rightarrow> Inl e
            | Inr comps \<Rightarrow>
                Inr (py_or city (PStr (address_components.city comps)),
                     py_or state (PStr (address_components.state comps)),
                     py_or zip (PStr (zip_code comps))))
         else Inr (city, state, zip))"

text \<open>\<^verbatim>\<open>a and b and a.upper() == b.upper()\<close>.\<close>

definition same_upper :: "pyval \<Rightarrow> pyval \<Rightarrow> pyerr + bool" where
  "same_upper a b =
     (if truthy a \<and> truthy b then
        (case upper_or_empty a of
           Inl e \<Rightarrow> Inl e
         | Inr s \<Rightarrow> (case upper_or_empty b of Inl e \<Rightarrow> Inl e | Inr t \<Rightarrow> Inr (s = t)))
      else Inr False)"

text \<open>City/State/ZIP match (20%).\<close>

definition location_signal :: "pydict \<Rightarrow> pydict \<Rightarrow> pyerr + rat" where
  "location_signal listing1 listing2 =
     (case location_of listing1 of
        Inl e \<Rightarrow> Inl e
      | Inr (city1, state1, zip1) \<Rightarrow>
          (case location_of listing2 of
             Inl e \<Rightarrow> Inl e
           | Inr (city2, state2, zip2) \<Rightarrow>
               (case same_upper city1 city2 of
                  Inl e \<Rightarrow> Inl e
                | Inr c \<Rightarrow>
                    (case same_upper state1 state2 of
                       Inl e \<Rightarrow> Inl e
                     | Inr s \<Rightarrow>
                         Inr ((if c then 7 / 100 else 0) + (if s then 7 / 100 else 0)
                              + (if truthy zip1 \<and> truthy zip2 \<and> py_eq zip1 zip2
                                 then 6 / 100 else 0))))))"

text \<open>Property type match (15%).\<close>

definition type_signal :: "pydict \<Rightarrow> pydict \<Rightarrow> pyerr + rat" where
  "type_signal listing1 listing2 =
     (case upper_or_empty
             (py_or (dict_get listing1 ''homeType'')
                    (dict_get_or listing1 ''property_type'' (PStr ''''))) of
        Inl e \<Rightarrow> Inl e
      | Inr type1 \<Rightarrow>
          (case upper_or_empty
                  (py_or (dict_get listing2 ''homeType'')
                         (dict_get_or listing2 ''property_type'' (PStr ''''))) of
             Inl e \<Rightarrow> Inl e
           | Inr type2 \<Rightarrow>
               Inr (if type1 \<noteq> [] \<and> type2 \<noteq> [] \<and> type1 = type2 then 15 / 100 else 0)))"

text \<open>
  The body of the two \<^verbatim>\<open>try\<close> blocks: both values to floats, then
  \<^verbatim>\<open>abs(x - y) / max(x, y)\<close>. \<^verbatim>\<open>ValueError\<close> and \<^verbatim>\<open>ZeroDivisionError\<close> are caught
  (the result \<open>None\<close>); \<^verbatim>\<open>TypeError\<close> is not. The second conversion is not reached when
  the first one raises.
\<close>

definition relative_variance :: "pyval \<Rightarrow> pyval \<Rightarrow> pyerr + rat option" where
  "relative_variance v1 v2 =
     (case py_float v1 of
        Inl e \<Rightarrow> if e = ValueError then Inr None else Inl e
      | Inr x \<Rightarrow>
          (case py_float v2 of
             Inl e \<Rightarrow> if e = ValueError then Inr None else Inl e
           | Inr y \<Rightarrow>
               if max x y = 0 then Inr None else Inr (Some (\<bar>x - y\<bar> / max x y))))"

text \<open>Size match (15%).\<close>

definition size_of :: "pydict \<Rightarrow> pyval" where
  "size_of l = py_or (py_or (dict_get l ''area'') (dict_get l ''square_feet'')) (dict_get l ''sqft'')"

definition size_signal :: "pydict \<Rightarrow> pydict \<Rightarrow> pyerr + rat" where
  "size_signal listing1 listing2 =
     (if truthy (size_of listing1) \<and> truthy (size_of listing2) then
        (case relative_variance (size_of listing1) (size_of listing2) of
           Inl e \<Rightarrow> Inl e
         | Inr None \<Rightarrow> Inr 0
         | Inr (Some variance) \<Rightarrow>
             Inr (if variance < 5 / 100 then 15 / 100
                  else if variance < 10 / 100 then 10 / 100
                  else if variance < 15 / 100 then 5 / 100
                  else 0))
      else Inr 0)"

text \<open>Price range match (10%).\<close>

definition price_signal :: "pydict \<Rightarrow> pydict \<Rightarrow> pyerr + rat" where
  "price_signal listing1 listing2 =
     (if truthy (effective_price listing1) \<and> truthy (effective_price listing2) then
        (case relative_variance (effective_price listing1) (effective_price listing2) of
           Inl e \<Rightarrow> Inl e
         | Inr None \<Rightarrow> Inr 0
         | Inr (Some variance) \<Rightarrow>
             Inr (if variance < 5 / 100 then 10 / 100
                  else if variance < 20 / 100 then 5 / 100
                  else 0))
      else Inr 0)"

text \<open>\<^verbatim>\<open>score += ...\<close>: the next signal is computed only when no exception was raised.\<close>

definition add_signal :: "pyerr + rat \<Rightarrow> pyerr + rat \<Rightarrow> pyerr + rat" where
  "add_signal score signal =
     (case score of
        Inl e \<Rightarrow> Inl e
      | Inr x \<Rightarrow> (case signal of Inl e \<Rightarrow> Inl e | Inr y \<Rightarrow> Inr (x + y)))"

text \<open>\<^verbatim>\<open>PropertyMatcher.calculate_match_score\<close>.\<close>

definition calculate_match_score :: "pydict \<Rightarrow> pydict \<Rightarrow> pyerr + rat" where
  "calculate_match_score listing1 listing2 =
     add_signal (add_signal (add_signal (add_signal
       (address_signal listing1 listing2)
       (location_signal listing1 listing2))
       (type_signal listing1 listing2))
       (size_signal listing1 listing2))
       (price_signal listing1 listing2)"

text \<open>\<^verbatim>\<open>PropertyMatcher.is_match\<close>; the default threshold is 0.70.\<close>

definition is_match :: "pydict \<Rightarrow> pydict \<Rightarrow> rat \<Rightarrow> pyerr + (bool \<times> rat)" where
  "is_match listing1 listing2 threshold =
     (case calculate_match_score listing1 listing2 of
        Inl e \<Rightarrow> Inl e
      | Inr score \<Rightarrow> Inr (threshold \<le> score, score))"

definition MATCH_THRESHOLD :: rat where
  "MATCH_THRESHOLD = 70 / 100"

section \<open>Listings\<close>

text \<open>
  A raw listing record, as \<^verbatim>\<open>process_listings\<close> hands it to the other methods. The
  extraction time is a point on a linear time scale.
\<close>

record listing =
  source_platform :: string
  extraction_timestamp :: int
  listing_id :: string
  raw_fields :: pydict
  metadata :: pydict

section \<open>DataConsolidator\<close>

text \<open>
  \<^verbatim>\<open>DataConsolidator.get_field_precedence\<close>. \<^verbatim>\<open>sorted(..., reverse=True)\<close> keeps the
  order of elements with equal keys: it sorts the reversed list with a stable sort and
  reverses the result.
\<close>

definition get_field_precedence :: "string \<Rightarrow> listing list \<Rightarrow> pyval" where
  "get_field_precedence field_name listings =
     (let candidates = filter (\<lambda>l. raw_fields l field_name \<noteq> None) listings
      in if candidates = [] then PNone
         else let sorted_listings = rev (sort_key extraction_timestamp (rev candidates))
              in dict_get (raw_fields (hd sorted_listings)) field_name)"

record conflict =
  conflict_field :: string
  conflict_values :: "(string \<times> pyval) list"
  variance_percent :: "rat option"

text \<open>One observation (source, value) per listing whose value for the field is not \<^verbatim>\<open>None\<close>.\<close>

definition observations :: "string \<Rightarrow> listing list \<Rightarrow> (string \<times> pyval) list" where
  "observations field_name listings =
     map (\<lambda>l. (source_platform l, dict_get (raw_fields l) field_name))
       (filter (\<lambda>l. dict_get (raw_fields l) field_name \<noteq> PNone) listings)"

text \<open>\<^verbatim>\<open>max\<close> and \<^verbatim>\<open>min\<close> of a non-empty sequence of numbers.\<close>

definition list_max :: "rat list \<Rightarrow> rat" where
  "list_max xs = foldl max (hd xs) (tl xs)"

definition list_min :: "rat list \<Rightarrow> rat" where
  "list_min xs = foldl min (hd xs) (tl xs)"

text \<open>
  \<^verbatim>\<open>str(v)\<close>. The text of a float (its shortest digits that read back) and of a list (the
  \<^verbatim>\<open>repr\<close> of its elements) is left to the parameter \<open>render\<close>.
\<close>

fun py_str :: "(pyval \<Rightarrow> string) \<Rightarrow> pyval \<Rightarrow> string" where
  "py_str render PNone = ''None''"
| "py_str render (PBool b) = (if b then ''True'' else ''False'')"
| "py_str render (PInt n) = (if n < 0 then ''-'' else '''') @ nat_digits (nat \<bar>n\<bar>)"
| "py_str render (PStr s) = s"
| "py_str render (PFloat r) = render (PFloat r)"
| "py_str render (PList xs) = render (PList xs)"

text \<open>
  \<^verbatim>\<open>DataConsolidator.detect_conflicts\<close>. When the first value is a number, \<^verbatim>\<open>max\<close>
  compares every value with a number, which raises \<^verbatim>\<open>TypeError\<close> for a value that is
  not a number.
\<close>

definition detect_conflicts ::
  "(pyval \<Rightarrow> string) \<Rightarrow> string \<Rightarrow> listing list \<Rightarrow> rat \<Rightarrow> pyerr + conflict option" where
  "detect_conflicts render field_name listings variance_threshold =
     (let vals = observations field_name listings
      in if length vals \<le> 1 then Inr None
         else if num_value (snd (hd vals)) \<noteq> None then
           (case those (map (\<lambda>v. num_value (snd v)) vals) of
              None \<Rightarrow> Inl TypeError
            | Some nums \<Rightarrow>
                let max_val = list_max nums; min_val = list_min nums
                in if 0 < max_val \<and> variance_threshold < (max_val - min_val) / max_val then
                     Inr (Some \<lparr>conflict_field = field_name, conflict_values = vals,
                                variance_percent = Some ((max_val - min_val) / max_val * 100)\<rparr>)
                   else Inr None)
         else if 1 < length (remdups (map (\<lambda>v. py_str render (snd v)) vals)) then
           Inr (Some \<lparr>conflict_field = field_name, conflict_values = vals, variance_percent = None\<rparr>)
         else Inr None)"

definition DEFAULT_VARIANCE_THRESHOLD :: rat where
  "DEFAULT_VARIANCE_THRESHOLD = 5 / 100"

section \<open>CentralProcessingNode\<close>

text \<open>
  The two loops of \<^verbatim>\<open>_group_listings\<close>, over the match decision \<open>matches\<close>. The inner
  loop runs over \<^verbatim>\<open>listings[i+1:]\<close> with its index \<open>j\<close>, and compares \<open>listing1\<close> with
  every listing not yet processed.
\<close>

fun find_matches ::
  "('a \<Rightarrow> 'a \<Rightarrow> pyerr + bool) \<Rightarrow> 'a \<Rightarrow> nat \<Rightarrow> 'a list \<Rightarrow> nat set \<Rightarrow> 'a list
     \<Rightarrow> pyerr + ('a list \<times> nat set)" where
  "find_matches matches listing1 j [] processed members = Inr (members, processed)"
| "find_matches matches listing1 j (listing2 # rest) processed members =
     (if j \<in> processed then find_matches matches listing1 (Suc j) rest processed members
      else (case matches listing1 listing2 of
              Inl e \<Rightarrow> Inl e
            | Inr matched \<Rightarrow>
                if matched then
                  find_matches matches listing1 (Suc j) rest (insert j processed)
                    (members @ [listing2])
                else find_matches matches listing1 (Suc j) rest processed members))"

fun group_from ::
  "('a \<Rightarrow> 'a \<Rightarrow> pyerr + bool) \<Rightarrow> nat \<Rightarrow> 'a list \<Rightarrow> nat set \<Rightarrow> 'a list list
     \<Rightarrow> pyerr + 'a list list" where
  "group_from matches i [] processed groups = Inr groups"
| "group_from matches i (listing1 # rest) processed groups =
     (if i \<in> processed then group_from matches (Suc i) rest processed groups
      else (case find_matches matches listing1 (Suc i) rest (insert i processed) [listing1] of
              Inl e \<Rightarrow> Inl e
            | Inr (members, processed') \<Rightarrow>
                group_from matches (Suc i) rest processed' (groups @ [members])))"

text \<open>The decision used for grouping: \<^verbatim>\<open>is_match\<close> on the raw fields, default threshold.\<close>

definition listings_match :: "listing \<Rightarrow> listing \<Rightarrow> pyerr + bool" where
  "listings_match listing1 listing2 =
     (case is_match (raw_fields listing1) (raw_fields listing2) MATCH_THRESHOLD of
        Inl e \<Rightarrow> Inl e
      | Inr (matched, score) \<Rightarrow> Inr matched)"

text \<open>\<^verbatim>\<open>CentralProcessingNode._group_listings\<close>.\<close>

definition group_listings :: "listing list \<Rightarrow> pyerr + listing list list" where
  "group_listings listings = group_from listings_match 0 listings {} []"

definition common_fields :: "string list" where
  "common_fields =
     [''address'', ''address_full'', ''address_street'', ''address_city'', ''address_state'',
      ''address_zip'', ''price'', ''unformattedPrice'', ''beds'', ''baths'', ''area'',
      ''latitude'', ''longitude'', ''homeType'', ''homeStatus'', ''daysOnZillow'']"

text \<open>The loop over the common fields: the best value and the conflict of each field.\<close>

fun consolidate_fields ::
  "(pyval \<Rightarrow> string) \<Rightarrow> listing list \<Rightarrow> string list \<Rightarrow> pydict \<Rightarrow> conflict list
     \<Rightarrow> pyerr + (pydict \<times> conflict list)" where
  "consolidate_fields render members [] consolidated_data conflicts =
     Inr (consolidated_data, conflicts)"
| "consolidate_fields render members (field_name # rest) consolidated_data conflicts =
     (let val = get_field_precedence field_name members;
          consolidated_data = (if val \<noteq> PNone then consolidated_data(field_name \<mapsto> val)
                               else consolidated_data)
      in (case detect_conflicts render field_name members DEFAULT_VARIANCE_THRESHOLD of
            Inl e \<Rightarrow> Inl e
          | Inr None \<Rightarrow>
              consolidate_fields render members rest consolidated_data conflicts
          | Inr (Some c) \<Rightarrow>
              consolidate_fields render members rest consolidated_data
                (conflicts @ [c])))"

text \<open>The standard address field, taken from the full address or built from the parts.\<close>

definition ensure_address :: "(pyval \<Rightarrow> string) \<Rightarrow> pydict \<Rightarrow> pydict" where
  "ensure_address render consolidated_data =
     (if consolidated_data ''address_full'' \<noteq> None \<and> consolidated_data ''address'' = None then
        consolidated_data(''address'' \<mapsto> dict_get consolidated_data ''address_full'')
      else if consolidated_data ''address'' = None
              \<and> consolidated_data ''address_street'' \<noteq> None then
        (let parts = map (\<lambda>f. py_str render (dict_get consolidated_data f))
                       (filter (\<lambda>f. consolidated_data f \<noteq> None
                                     \<and> truthy (dict_get consolidated_data f))
                          [''address_street'', ''address_city'', ''address_state'',
                           ''address_zip''])
         in if parts \<noteq> [] then consolidated_data(''address'' \<mapsto> PStr (join '', '' parts))
            else consolidated_data)
      else consolidated_data)"

record source_summary =
  platform :: string
  summary_listing_id :: string
  extracted :: int

record consolidated_property =
  property_id :: string
  consolidated_data :: pydict
  source_listings :: "source_summary list"
  conflicts :: "conflict list"
  classification :: string
  discard_reason :: "string option"
  discard_details :: "discard_details option"
  last_updated :: string

text \<open>The format \<^verbatim>\<open>{n:06d}\<close>.\<close>

definition pad6 :: "nat \<Rightarrow> string" where
  "pad6 n = replicate (6 - length (nat_digits n)) CHR ''0'' @ nat_digits n"

text \<open>
  \<^verbatim>\<open>CentralProcessingNode._consolidate_group\<close>. The argument \<open>now\<close> stands for the
  clock readings of the call.
\<close>

definition consolidate_group ::
  "(pyval \<Rightarrow> string) \<Rightarrow> string \<Rightarrow> nat \<Rightarrow> listing list \<Rightarrow> pyerr + consolidated_property" where
  "consolidate_group render now group_id members =
     (case consolidate_fields render members common_fields Map.empty [] of
        Inl e \<Rightarrow> Inl e
      | Inr (data, found) \<Rightarrow>
          (case classify_property now (ensure_address render data) of
             Inl e \<Rightarrow> Inl e
           | Inr (cls, reason, details) \<Rightarrow>
               Inr \<lparr>property_id = ''PROP-'' @ pad6 group_id,
                     consolidated_data = ensure_address render data,
                     source_listings =
                       map (\<lambda>l. \<lparr>platform = source_platform l,
                                   summary_listing_id = listing_id l,
                                   extracted = extraction_timestamp l\<rparr>) members,
                     conflicts = found,
                     classification = cls,
                     discard_reason = reason,
                     discard_details = details,
                     last_updated = now\<rparr>))"

text \<open>The loop of \<^verbatim>\<open>process_listings\<close> over the enumerated groups.\<close>

fun consolidate_groups ::
  "(pyval \<Rightarrow> string) \<Rightarrow> string \<Rightarrow> nat \<Rightarrow> listing list list
     \<Rightarrow> pyerr + consolidated_property list" where
  "consolidate_groups render now group_id [] = Inr []"
| "consolidate_groups render now group_id (g # gs) =
     (case consolidate_group render now group_id g of
        Inl e \<Rightarrow> Inl e
      | Inr p \<Rightarrow>
          (case consolidate_groups render now (Suc group_id) gs of
             Inl e \<Rightarrow> Inl e
           | Inr ps \<Rightarrow> Inr (p # ps)))"

text \<open>\<^verbatim>\<open>CentralProcessingNode.process_listings\<close>.\<close>

definition process_listings ::
  "(pyval \<Rightarrow> string) \<Rightarrow> string \<Rightarrow> listing list \<Rightarrow> pyerr + consolidated_property list" where
  "process_listings render now raw_listings =
     (case group_listings raw_listings of
        Inl e \<Rightarrow> Inl e
      | Inr property_groups \<Rightarrow> consolidate_groups render now 0 property_groups)"

section \<open>The contracts as the specification words them\<close>



text \<open>
  Leader-based grouping: the first listing leads a group made of the listings after it
  that match it; the listings that do not match it are grouped in the same way.
\<close>

fun leader_groups :: "('a \<Rightarrow> 'a \<Rightarrow> bool) \<Rightarrow> 'a list \<Rightarrow> 'a list list" where
  "leader_groups p [] = []"
| "leader_groups p (x # xs) =
     (x # filter (p x) xs) # leader_groups p (filter (\<lambda>y. \<not> p x y) xs)"

text \<open>The listings of a suffix that starts at index \<open>i\<close> and are not yet processed.\<close>

fun unprocessed :: "nat \<Rightarrow> 'a list \<Rightarrow> nat set \<Rightarrow> 'a list" where
  "unprocessed i [] processed = []"
| "unprocessed i (x # xs) processed =
     (if i \<in> processed then unprocessed (Suc i) xs processed
      else x # unprocessed (Suc i) xs processed)"

section \<open>Properties of the classifier\<close>

lemma missing_fields_falsy:
  "\<not> truthy (dict_get d ''address'') \<Longrightarrow> missing_fields d = [''address'']"
  by (simp add: missing_fields_def)






text \<open>
  Claim C4. When the \<^verbatim>\<open>address\<close> key is absent from the consolidated data, the record is
  discarded with reason \<^verbatim>\<open>missing_critical_fields\<close>, and the explanation lists the missing
  field. The rule is the first one, so no other field (not even one that would make a
  later rule raise) changes the result.
\<close>

theorem classify_absent_address:
  assumes "d ''address'' = None"
  shows "classify_property now d =
     Inr (''discarded'', Some ''missing_critical_fields'',
          Some \<lparr>reason_category = ''incomplete_data'',
                explanation = ''Missing required fields: address'',
                discarded_date = now\<rparr>)"
proof -
  from assms have "\<not> truthy (dict_get d ''address'')"
    by (simp add: dict_get_def)
  then have "missing_fields d = [''address'']"
    by (rule missing_fields_falsy)
  then show ?thesis
    by (simp add: classify_property_def)
qed

theorem classify_absent_address_witness:
  "classify_property ''2024-05-01T12:00:00''
     [''price'' \<mapsto> PInt 1250000, ''homeType'' \<mapsto> PInt 5, ''daysOnZillow'' \<mapsto> PInt 400] =
     Inr (''discarded'', Some ''missing_critical_fields'',
          Some \<lparr>reason_category = ''incomplete_data'',
                explanation = ''Missing required fields: address'',
                discarded_date = ''2024-05-01T12:00:00''\<rparr>)"
  by (rule classify_absent_address) simp

text \<open>
  Claim C10. An \<^verbatim>\<open>address\<close> entry that is present with a falsy value (the empty string in
  particular) gives the same result as an absent one: discarded with reason
  \<^verbatim>\<open>missing_critical_fields\<close>.
\<close>

theorem classify_falsy_address:
  assumes "d ''address'' = Some v" and "\<not> truthy v"
  shows "classify_property now d =
     Inr (''discarded'', Some ''missing_critical_fields'',
          Some \<lparr>reason_category = ''incomplete_data'',
                explanation = ''Missing required fields: address'',
                discarded_date = now\<rparr>)
     \<and> classify_property now d = classify_property now (d(''address'' := None))"
proof -
  from assms have "\<not> truthy (dict_get d ''address'')"
    by (simp add: dict_get_def)
  then have a: "missing_fields d = [''address'']"
    by (rule missing_fields_falsy)
  have "\<not> truthy (dict_get (d(''address'' := None)) ''address'')"
    by (simp add: dict_get_def)
  then have b: "missing_fields (d(''address'' := None)) = [''address'']"
    by (rule missing_fields_falsy)
  from a b show ?thesis
    by (simp add: classify_property_def)
qed

theorem classify_falsy_address_witness:
  "classify_property ''2024-05-01T12:00:00''
     [''address'' \<mapsto> PStr '''', ''price'' \<mapsto> PInt 1250000] =
     Inr (''discarded'', Some ''missing_critical_fields'',
          Some \<lparr>reason_category = ''incomplete_data'',
                explanation = ''Missing required fields: address'',
                discarded_date = ''2024-05-01T12:00:00''\<rparr>)
   \<and> classify_property ''2024-05-01T12:00:00''
     [''address'' \<mapsto> PStr '''', ''price'' \<mapsto> PInt 1250000] =
     classify_property ''2024-05-01T12:00:00''
     ([''address'' \<mapsto> PStr '''', ''price'' \<mapsto> PInt 1250000](''address'' := None))"
  by (rule classify_falsy_address [where v = "PStr ''''"]) simp_all




lemma dict_get_removed: "dict_get (d(k := None)) k = PNone"
  by (simp add: dict_get_def)















section \<open>Properties of the consolidator\<close>














section \<open>Properties of the grouping\<close>

lemma unprocessed_insert_below:
  "k < i \<Longrightarrow> unprocessed i xs (insert k processed) = unprocessed i xs processed"
  by (induction xs arbitrary: i) auto

lemma unprocessed_none: "unprocessed i xs {} = xs"
  by (induction xs arbitrary: i) auto

lemma find_matches_leader:
  assumes "\<forall>y\<in>set rest. matches x y = Inr (p x y)"
  shows "\<exists>processed'.
           find_matches matches x j rest processed members =
             Inr (members @ filter (p x) (unprocessed j rest processed), processed')
         \<and> unprocessed j rest processed' =
             filter (\<lambda>y. \<not> p x y) (unprocessed j rest processed)
         \<and> (\<forall>k<j. (k \<in> processed') = (k \<in> processed))"
  using assms
proof (induction rest arbitrary: j processed members)
  case Nil
  then show ?case by simp
next
  case (Cons y ys)
  then have total: "\<forall>z\<in>set ys. matches x z = Inr (p x z)" and here: "matches x y = Inr (p x y)"
    by simp_all
  show ?case
  proof (cases "j \<in> processed")
    case True
    from Cons.IH [OF total, of "Suc j" processed members]
    obtain Q where Q: "find_matches matches x (Suc j) ys processed members =
          Inr (members @ filter (p x) (unprocessed (Suc j) ys processed), Q)"
        "unprocessed (Suc j) ys Q = filter (\<lambda>y. \<not> p x y) (unprocessed (Suc j) ys processed)"
        "\<forall>k<Suc j. (k \<in> Q) = (k \<in> processed)"
      by blast
    with True have "j \<in> Q" by simp
    with True Q show ?thesis by (intro exI [of _ Q]) simp
  next
    case False
    show ?thesis
    proof (cases "p x y")
      case True
      from Cons.IH [OF total, of "Suc j" "insert j processed" "members @ [y]"]
      obtain Q where Q: "find_matches matches x (Suc j) ys (insert j processed) (members @ [y]) =
            Inr ((members @ [y]) @ filter (p x) (unprocessed (Suc j) ys (insert j processed)), Q)"
          "unprocessed (Suc j) ys Q =
             filter (\<lambda>y. \<not> p x y) (unprocessed (Suc j) ys (insert j processed))"
          "\<forall>k<Suc j. (k \<in> Q) = (k \<in> insert j processed)"
        by blast
      then have "j \<in> Q" by simp
      with False True here Q show ?thesis
        by (intro exI [of _ Q]) (auto simp add: unprocessed_insert_below)
    next
      case no: False
      from Cons.IH [OF total, of "Suc j" processed members]
      obtain Q where Q: "find_matches matches x (Suc j) ys processed members =
            Inr (members @ filter (p x) (unprocessed (Suc j) ys processed), Q)"
          "unprocessed (Suc j) ys Q = filter (\<lambda>y. \<not> p x y) (unprocessed (Suc j) ys processed)"
          "\<forall>k<Suc j. (k \<in> Q) = (k \<in> processed)"
        by blast
      with False have "j \<notin> Q" by simp
      with False no here Q show ?thesis by (intro exI [of _ Q]) simp
    qed
  qed
qed

lemma group_from_leader:
  assumes "\<forall>x\<in>set xs. \<forall>y\<in>set xs. matches x y = Inr (p x y)"
  shows "group_from matches i xs processed groups =
           Inr (groups @ leader_groups p (unprocessed i xs processed))"
  using assms
proof (induction xs arbitrary: i processed groups)
  case Nil
  then show ?case by simp
next
  case (Cons x xs)
  then have total: "\<forall>a\<in>set xs. \<forall>b\<in>set xs. matches a b = Inr (p a b)"
    and leader: "\<forall>y\<in>set xs. matches x y = Inr (p x y)"
    by simp_all
  show ?case
  proof (cases "i \<in> processed")
    case True
    with Cons.IH [OF total] show ?thesis by simp
  next
    case False
    from find_matches_leader [of xs matches x p "Suc i" "insert i processed" "[x]"] leader
    obtain Q where Q: "find_matches matches x (Suc i) xs (insert i processed) [x] =
          Inr ([x] @ filter (p x) (unprocessed (Suc i) xs (insert i processed)), Q)"
        "unprocessed (Suc i) xs Q =
           filter (\<lambda>y. \<not> p x y) (unprocessed (Suc i) xs (insert i processed))"
      by blast
    with False Cons.IH [OF total, of "Suc i" Q] show ?thesis
      by (simp add: unprocessed_insert_below)
  qed
qed

lemma listings_match_of_is_match:
  "is_match (raw_fields a) (raw_fields b) MATCH_THRESHOLD = Inr (m, s) \<Longrightarrow>
   listings_match a b = Inr m"
  by (simp add: listings_match_def)

text \<open>
  Claim C1. Grouping is single-pass and leader-based. Whenever the match decision returns
  for the listings, the groups are those of \<open>leader_groups\<close>: each leader is followed by
  the later unassigned listings that match the leader, and no other comparison decides
  membership. For three listings A, B, C in this order, with A matching B, A not matching
  C and B matching C, the groups are [A, B] and [C].
\<close>

theorem group_listings_leader_based:
  "((\<forall>a\<in>set listings. \<forall>b\<in>set listings. listings_match a b = Inr (p a b)) \<longrightarrow>
      group_listings listings = Inr (leader_groups p listings))
   \<and> (is_match (raw_fields A) (raw_fields B) MATCH_THRESHOLD = Inr (True, sab)
        \<and> is_match (raw_fields A) (raw_fields C) MATCH_THRESHOLD = Inr (False, sac)
        \<and> is_match (raw_fields B) (raw_fields C) MATCH_THRESHOLD = Inr (True, sbc) \<longrightarrow>
      group_listings [A, B, C] = Inr [[A, B], [C]])"
proof (intro conjI impI)
  assume "\<forall>a\<in>set listings. \<forall>b\<in>set listings. listings_match a b = Inr (p a b)"
  with group_from_leader [of listings listings_match p 0 "{}" "[]"]
  show "group_listings listings = Inr (leader_groups p listings)"
    by (simp add: group_listings_def unprocessed_none)
next
  assume "is_match (raw_fields A) (raw_fields B) MATCH_THRESHOLD = Inr (True, sab)
        \<and> is_match (raw_fields A) (raw_fields C) MATCH_THRESHOLD = Inr (False, sac)
        \<and> is_match (raw_fields B) (raw_fields C) MATCH_THRESHOLD = Inr (True, sbc)"
  then have "listings_match A B = Inr True" and "listings_match A C = Inr False"
    by (simp_all add: listings_match_of_is_match)
  then show "group_listings [A, B, C] = Inr [[A, B], [C]]"
    by (simp add: group_listings_def)
qed

theorem group_listings_leader_based_witness:
  "is_match
     [''address_full'' \<mapsto> PStr ''12 Oak St'', ''address_state'' \<mapsto> PStr ''WA'',
      ''area'' \<mapsto> PInt 1040, ''price'' \<mapsto> PInt 1040000]
     [''address_full'' \<mapsto> PStr ''12 Oak St'', ''address_state'' \<mapsto> PStr ''WA'',
      ''area'' \<mapsto> PInt 1080, ''price'' \<mapsto> PInt 1080000] MATCH_THRESHOLD = Inr (True, 18 / 25)
   \<and> group_listings
     [\<lparr>source_platform = ''zillow'', extraction_timestamp = 10, listing_id = ''z1'',
       raw_fields = [''address_full'' \<mapsto> PStr ''12 Oak St'', ''address_state'' \<mapsto> PStr ''WA'',
                     ''area'' \<mapsto> PInt 1000, ''price'' \<mapsto> PInt 1000000],
       metadata = Map.empty\<rparr>,
      \<lparr>source_platform = ''loopnet'', extraction_timestamp = 20, listing_id = ''l1'',
       raw_fields = [''address_full'' \<mapsto> PStr ''12 Oak St'', ''address_state'' \<mapsto> PStr ''WA'',
                     ''area'' \<mapsto> PInt 1040, ''price'' \<mapsto> PInt 1040000],
       metadata = Map.empty\<rparr>,
      \<lparr>source_platform = ''crexi'', extraction_timestamp = 30, listing_id = ''c1'',
       raw_fields = [''address_full'' \<mapsto> PStr ''12 Oak St'', ''address_state'' \<mapsto> PStr ''WA'',
                     ''area'' \<mapsto> PInt 1080, ''price'' \<mapsto> PInt 1080000],
       metadata = Map.empty\<rparr>] =
   Inr [[\<lparr>source_platform = ''zillow'', extraction_timestamp = 10, listing_id = ''z1'',
          raw_fields = [''address_full'' \<mapsto> PStr ''12 Oak St'',
                        ''address_state'' \<mapsto> PStr ''WA'',
                        ''area'' \<mapsto> PInt 1000, ''price'' \<mapsto> PInt 1000000],
          metadata = Map.empty\<rparr>,
         \<lparr>source_platform = ''loopnet'', extraction_timestamp = 20, listing_id = ''l1'',
          raw_fields = [''address_full'' \<mapsto> PStr ''12 Oak St'',
                        ''address_state'' \<mapsto> PStr ''WA'',
                        ''area'' \<mapsto> PInt 1040, ''price'' \<mapsto> PInt 1040000],
          metadata = Map.empty\<rparr>],
        [\<lparr>source_platform = ''crexi'', extraction_timestamp = 30, listing_id = ''c1'',
          raw_fields = [''address_full'' \<mapsto> PStr ''12 Oak St'',
                        ''address_state'' \<mapsto> PStr ''WA'',
                        ''area'' \<mapsto> PInt 1080, ''price'' \<mapsto> PInt 1080000],
          metadata = Map.empty\<rparr>]]"
  (is "is_match ?b ?c _ = _ \<and> group_listings [?A, ?B, ?C] = _")
proof -
  let ?a = "[''address_full'' \<mapsto> PStr ''12 Oak St'', ''address_state'' \<mapsto> PStr ''WA'',
             ''area'' \<mapsto> PInt 1000, ''price'' \<mapsto> PInt 1000000]"
  have ab: "is_match ?a ?b MATCH_THRESHOLD = Inr (True, 18 / 25)"
    by code_simp
  have ac: "is_match ?a ?c MATCH_THRESHOLD = Inr (False, 31 / 50)"
    by code_simp
  have bc: "is_match ?b ?c MATCH_THRESHOLD = Inr (True, 18 / 25)"
    by code_simp
  from ab ac bc
    group_listings_leader_based [THEN conjunct2, of ?A ?B "18 / 25" ?C "31 / 50" "18 / 25"]
  have "group_listings [?A, ?B, ?C] = Inr [[?A, ?B], [?C]]"
    by simp
  with bc show ?thesis by simp
qed

section \<open>Properties of the pipeline\<close>

lemma days_rule_not_discarded:
  "days_rule d = (''flagged'', None, None) \<or> days_rule d = (''usable'', None, None)"
  by (simp add: days_rule_def Let_def split: sum.splits)

lemma price_rule_reason:
  assumes "price_rule now d = (c, r, dd)"
  shows "(r \<noteq> None) = (c = ''discarded'') \<and> (dd \<noteq> None) = (c = ''discarded'')"
  using assms days_rule_not_discarded [of d]
  by (auto simp add: price_rule_def Let_def split: sum.splits if_splits)

lemma classify_property_reason:
  assumes "classify_property now d = Inr (c, r, dd)"
  shows "(r \<noteq> None) = (c = ''discarded'') \<and> (dd \<noteq> None) = (c = ''discarded'')"
proof (cases "missing_fields d = []")
  case True
  with assms have "price_rule now d = (c, r, dd)"
    by (simp add: classify_property_def split: sum.splits)
  then show ?thesis by (rule price_rule_reason)
next
  case False
  with assms show ?thesis
    by (auto simp add: classify_property_def)
qed

lemma consolidate_group_reason:
  assumes "consolidate_group render now group_id members = Inr p"
  shows "(discard_reason p \<noteq> None) = (classification p = ''discarded'')
       \<and> (consolidated_property.discard_details p \<noteq> None) = (classification p = ''discarded'')"
proof -
  from assms obtain data found c r dd where
    "classify_property now (ensure_address render data) = Inr (c, r, dd)"
    and "classification p = c" and "discard_reason p = r"
    and "consolidated_property.discard_details p = dd"
    by (auto simp add: consolidate_group_def split: sum.splits prod.splits)
  with classify_property_reason [of now "ensure_address render data" c r dd]
  show ?thesis by simp
qed

lemma consolidate_groups_reason:
  assumes "consolidate_groups render now group_id gs = Inr ps"
  shows "\<forall>p\<in>set ps.
           (discard_reason p \<noteq> None) = (classification p = ''discarded'')
         \<and> (consolidated_property.discard_details p \<noteq> None) = (classification p = ''discarded'')"
  using assms
proof (induction gs arbitrary: group_id ps)
  case Nil
  then show ?case by simp
next
  case (Cons g gs)
  from Cons.prems obtain p qs where
    p: "consolidate_group render now group_id g = Inr p"
    and qs: "consolidate_groups render now (Suc group_id) gs = Inr qs"
    and ps: "ps = p # qs"
    by (auto split: sum.splits)
  from consolidate_group_reason [OF p] Cons.IH [OF qs] ps show ?case by simp
qed

text \<open>
  Claim C9. In every consolidated property that \<^verbatim>\<open>process_listings\<close> returns, the discard
  reason is set exactly when the classification is \<^verbatim>\<open>discarded\<close>, and so are the discard
  details.
\<close>

theorem process_listings_discard_reason:
  assumes "process_listings render now raw_listings = Inr ps"
  shows "\<forall>p\<in>set ps.
           (discard_reason p \<noteq> None) = (classification p = ''discarded'')
         \<and> (consolidated_property.discard_details p \<noteq> None) = (classification p = ''discarded'')"
proof -
  from assms obtain gs where "consolidate_groups render now 0 gs = Inr ps"
    by (auto simp add: process_listings_def split: sum.splits)
  then show ?thesis by (rule consolidate_groups_reason)
qed

theorem process_listings_discard_reason_witness:
  "(case process_listings (\<lambda>v. []) ''2024-05-01T12:00:00''
      [\<lparr>source_platform = ''zillow'', extraction_timestamp = 10, listing_id = ''z1'',
        raw_fields = [''address_full'' \<mapsto> PStr ''123 Main Street, Seattle, WA 98101'',
                      ''unformattedPrice'' \<mapsto> PInt 1250000, ''daysOnZillow'' \<mapsto> PInt 400],
        metadata = Map.empty\<rparr>,
       \<lparr>source_platform = ''loopnet'', extraction_timestamp = 20, listing_id = ''l1'',
        raw_fields = [''price'' \<mapsto> PStr ''$900,000''],
        metadata = Map.empty\<rparr>] of
      Inl e \<Rightarrow> False
    | Inr ps \<Rightarrow>
        map classification ps = [''flagged'', ''discarded'']
        \<and> map discard_reason ps = [None, Some ''missing_critical_fields'']
        \<and> list_all (\<lambda>p. (discard_reason p \<noteq> None) = (classification p = ''discarded'')
                         \<and> (consolidated_property.discard_details p \<noteq> None)
                             = (classification p = ''discarded'')) ps)"
  (is "case process_listings ?r ?now ?L of Inl e \<Rightarrow> False | Inr ps \<Rightarrow> ?A ps \<and> ?B ps \<and> ?C ps")
proof -
  have run: "case process_listings ?r ?now ?L of Inl e \<Rightarrow> False | Inr ps \<Rightarrow> ?A ps \<and> ?B ps"
    by code_simp
  then obtain ps where ps: "process_listings ?r ?now ?L = Inr ps"
    by (cases "process_listings ?r ?now ?L") auto
  from process_listings_discard_reason [OF ps] have "?C ps"
    by (simp add: list_all_iff)
  with run ps show ?thesis by simp
qed

section \<open>The matcher and the normalizer on unusual inputs\<close>

text \<open>
  Claim C7. The match score is not symmetric on every pair of listings: when the size of one
  listing is a text that is not a number and the size of the other is a list, the score is
  returned in one order and \<^verbatim>\<open>TypeError\<close> is raised in the other, because the
  \<^verbatim>\<open>try\<close> block of the size signal catches \<^verbatim>\<open>ValueError\<close> but not \<^verbatim>\<open>TypeError\<close>.
\<close>

theorem calculate_match_score_order_dependent:
  "calculate_match_score
     [''address'' \<mapsto> PStr ''12 Oak St'', ''area'' \<mapsto> PStr ''N/A'']
     [''address'' \<mapsto> PStr ''12 Oak St'', ''area'' \<mapsto> PList [PInt 1200, PStr ''sqft'']]
     = Inr (2 / 5)
   \<and> calculate_match_score
     [''address'' \<mapsto> PStr ''12 Oak St'', ''area'' \<mapsto> PList [PInt 1200, PStr ''sqft'']]
     [''address'' \<mapsto> PStr ''12 Oak St'', ''area'' \<mapsto> PStr ''N/A'']
     = Inl TypeError"
  by code_simp

text \<open>
  Claim C8. Address normalization is not idempotent. Punctuation is removed after the
  whitespace is collapsed, so a comma between two spaces leaves a double space that only a
  second pass collapses; and the unit rule has no word boundary after the marker, so it
  splits \<^verbatim>\<open>APT007\<close> and \<^verbatim>\<open>UNITE\<close> into tokens that the earlier rules rewrite on a
  second pass.
\<close>

theorem normalize_address_second_pass:
  "normalize_address ''12 Main St , Springfield'' = ''12 MAIN STREET  SPRINGFIELD''
   \<and> normalize_address (normalize_address ''12 Main St , Springfield'') =
       ''12 MAIN STREET SPRINGFIELD''
   \<and> normalize_address ''Apt007'' = ''UNIT 007''
   \<and> normalize_address (normalize_address ''Apt007'') = ''UNIT 7''
   \<and> normalize_address ''Unite'' = ''UNIT E''
   \<and> normalize_address (normalize_address ''Unite'') = ''UNIT EAST''"
  by code_simp

end
